theory Spec2Isabelle
  imports Complex_Main "HOL-Library.Multiset"
begin

section \<open>JavaScript values and arrays\<close>

text \<open>
  The grid of the game is a JavaScript array of arrays of numbers (\<open>number[][]\<close>).
  Cells are integers in every path of the program; a read outside an array yields
  \<open>undefined\<close>, and a grid written with a hole comes back from the JSON column with
  \<open>null\<close> in it. Both compare unequal to every number under \<open>===\<close>, so one
  constructor stands for them.
\<close>

datatype jsval = Num int | Undefined

type_synonym Grid = "jsval list list"

datatype error =
    TypeError            \<comment> \<open>a property read or written on \<open>undefined\<close>\<close>
  | GameNotFound         \<comment> \<open>\<open>'Game not found'\<close>\<close>
  | NotWaiting           \<comment> \<open>\<open>'Game is not in waiting state'\<close>\<close>
  | OwnGame              \<comment> \<open>\<open>'Cannot join your own game'\<close>\<close>
  | NotInProgress        \<comment> \<open>\<open>'Game is not in progress'\<close>\<close>
  | NotYourTurn          \<comment> \<open>\<open>'Not your turn'\<close>\<close>
  | CellOccupied         \<comment> \<open>\<open>'Cell is already occupied'\<close>\<close>
  | ConstraintViolation  \<comment> \<open>an INSERT refused by a PRIMARY KEY or UNIQUE constraint\<close>
  | SyntaxError          \<comment> \<open>\<open>JSON.parse\<close> of a text that is not JSON\<close>

text \<open>\<open>xs[i]\<close> as an expression: \<open>None\<close> is \<open>undefined\<close>.\<close>

definition js_get :: "'a list \<Rightarrow> int \<Rightarrow> 'a option" where
  "js_get xs i = (if 0 \<le> i \<and> i < int (length xs) then Some (xs ! nat i) else None)"

text \<open>
  \<open>xs[i] = v\<close> on an array: inside the array the element is replaced; beyond its end the
  array grows, the skipped indices being holes. A negative index, and an index from
  \<open>2^32 - 1\<close> on, sets a property that is not an element (and that \<open>JSON.stringify\<close>
  drops), so the elements stay as they are.
\<close>

definition js_put :: "'a \<Rightarrow> 'a list \<Rightarrow> int \<Rightarrow> 'a \<Rightarrow> 'a list" where
  "js_put hole xs i v =
     (if i < 0 then xs
      else if i < int (length xs) then xs[nat i := v]
      else if 4294967295 \<le> i then xs
      else xs @ replicate (nat i - length xs) hole @ [v])"

text \<open>\<open>grid[row][col] === n\<close>: reading \<open>[col]\<close> of an absent row throws.\<close>

definition cell_of :: "jsval list \<Rightarrow> int \<Rightarrow> jsval" where
  "cell_of rw c = (case js_get rw c of None \<Rightarrow> Undefined | Some v \<Rightarrow> v)"

definition cellIs :: "Grid \<Rightarrow> int \<Rightarrow> int \<Rightarrow> int \<Rightarrow> error + bool" where
  "cellIs grid r c n =
     (case js_get grid r of None \<Rightarrow> Inl TypeError | Some rw \<Rightarrow> Inr (cell_of rw c = Num n))"

section \<open>Grid logic (core/game-logic.ts)\<close>

datatype GameStatus = waiting | in_progress | win | draw

definition createEmptyGrid :: Grid where
  "createEmptyGrid =
     [[Num 0, Num 0, Num 0],
      [Num 0, Num 0, Num 0],
      [Num 0, Num 0, Num 0]]"

definition isMoveValid :: "Grid \<Rightarrow> int \<Rightarrow> int \<Rightarrow> error + bool" where
  "isMoveValid grid r c =
     (if r < 0 \<or> r > 2 \<or> c < 0 \<or> c > 2 then Inr False
      else cellIs grid r c 0)"

text \<open>\<open>a && b\<close> and \<open>if (a) return true; b\<close> on results that may have thrown.\<close>

definition andAlso :: "error + bool \<Rightarrow> error + bool \<Rightarrow> error + bool" where
  "andAlso a b = (case a of Inl e \<Rightarrow> Inl e | Inr x \<Rightarrow> if x then b else Inr False)"

definition orReturn :: "error + bool \<Rightarrow> error + bool \<Rightarrow> error + bool" where
  "orReturn a b = (case a of Inl e \<Rightarrow> Inl e | Inr x \<Rightarrow> if x then Inr True else b)"

definition line3 :: "Grid \<Rightarrow> int \<Rightarrow> int \<times> int \<Rightarrow> int \<times> int \<Rightarrow> int \<times> int \<Rightarrow> error + bool" where
  "line3 grid n a b c =
     andAlso (cellIs grid (fst a) (snd a) n)
       (andAlso (cellIs grid (fst b) (snd b) n) (cellIs grid (fst c) (snd c) n))"

text \<open>The two \<open>for\<close> loops of \<open>checkWin\<close>, over the indices 0, 1, 2, then the rest.\<close>

fun anyLine :: "(int \<Rightarrow> error + bool) \<Rightarrow> int list \<Rightarrow> error + bool \<Rightarrow> error + bool" where
  "anyLine f [] rest = rest"
| "anyLine f (i # is) rest = orReturn (f i) (anyLine f is rest)"

definition checkWin :: "Grid \<Rightarrow> int \<Rightarrow> error + bool" where
  "checkWin grid n =
     anyLine (\<lambda>r. line3 grid n (r, 0) (r, 1) (r, 2)) [0, 1, 2]
       (anyLine (\<lambda>c. line3 grid n (0, c) (1, c) (2, c)) [0, 1, 2]
         (orReturn (line3 grid n (0, 0) (1, 1) (2, 2))
           (orReturn (line3 grid n (0, 2) (1, 1) (2, 0))
             (Inr False))))"

text \<open>The nested loops of \<open>checkDraw\<close>, row by row: the first zero returns false.\<close>

fun scanCells :: "Grid \<Rightarrow> (int \<times> int) list \<Rightarrow> error + bool" where
  "scanCells grid [] = Inr True"
| "scanCells grid ((r, c) # rest) =
     (case cellIs grid r c 0 of
        Inl e \<Rightarrow> Inl e
      | Inr z \<Rightarrow> if z then Inr False else scanCells grid rest)"

definition checkDraw :: "Grid \<Rightarrow> error + bool" where
  "checkDraw grid =
     scanCells grid [(0, 0), (0, 1), (0, 2), (1, 0), (1, 1), (1, 2), (2, 0), (2, 1), (2, 2)]"

text \<open>
  \<open>makeMove\<close> on values: \<open>grid.map((row) => [...row])\<close> copies, then
  \<open>newGrid[row][col] = playerId\<close>. The version on a store, with the copies as fresh
  objects, is \<open>makeMove_store\<close> below.
\<close>

definition makeMove :: "Grid \<Rightarrow> int \<Rightarrow> int \<Rightarrow> int \<Rightarrow> error + Grid" where
  "makeMove grid r c playerId =
     (case js_get grid r of
        None \<Rightarrow> Inl TypeError
      | Some rw \<Rightarrow> Inr (grid[nat r := js_put Undefined rw c (Num playerId)]))"

text \<open>A grid of three rows of three cells.\<close>

definition is3x3 :: "Grid \<Rightarrow> bool" where
  "is3x3 grid \<longleftrightarrow> length grid = 3 \<and> list_all (\<lambda>rw. length rw = 3) grid"


section \<open>makeMove on a store of objects\<close>

text \<open>
  Arrays are objects: a variable holds a reference, and two references may name the same
  array. The store is the list of all arrays allocated so far, an address being the
  position in it; an element of an array is a value or a reference to another array.
\<close>

datatype hval = Val jsval | Ref nat

type_synonym store = "hval list list"

text \<open>
  \<open>[...row]\<close>: a new array with the elements of \<open>row\<close>; a number is not iterable.
  A reference always names an array of the store; the last case is there for totality.
\<close>

definition spread :: "store \<Rightarrow> hval \<Rightarrow> error + (store \<times> hval)" where
  "spread h v =
     (case v of
        Val _ \<Rightarrow> Inl TypeError
      | Ref a \<Rightarrow> if a < length h then Inr (h @ [h ! a], Ref (length h)) else Inl TypeError)"

text \<open>\<open>grid.map((row) => [...row])\<close>, element by element from the left.\<close>

fun mapSpread :: "store \<Rightarrow> hval list \<Rightarrow> error + (store \<times> hval list)" where
  "mapSpread h [] = Inr (h, [])"
| "mapSpread h (v # vs) =
     (case spread h v of
        Inl e \<Rightarrow> Inl e
      | Inr (h1, r) \<Rightarrow>
          (case mapSpread h1 vs of
             Inl e \<Rightarrow> Inl e
           | Inr (h2, rs) \<Rightarrow> Inr (h2, r # rs)))"

text \<open>
  \<open>makeMove\<close> with the grid given by its address: the rows are copied, the array of the
  copies is allocated, and the assignment goes to the copy of the row. \<open>newGrid[row]\<close>
  is \<open>undefined\<close> outside the array, and writing a property of \<open>undefined\<close> throws;
  inside the array it is one of the copies.
\<close>

definition makeMove_store :: "store \<Rightarrow> nat \<Rightarrow> int \<Rightarrow> int \<Rightarrow> int \<Rightarrow> error + (store \<times> nat)" where
  "makeMove_store h grid r c playerId =
     (if length h \<le> grid then Inl TypeError
      else case mapSpread h (h ! grid) of
        Inl e \<Rightarrow> Inl e
      | Inr (h1, rows) \<Rightarrow>
          (let newGrid = length h1; h2 = h1 @ [rows] in
           case js_get rows r of
             None \<Rightarrow> Inl TypeError
           | Some (Val _) \<Rightarrow> Inl TypeError
           | Some (Ref a) \<Rightarrow>
               Inr (h2[a := js_put (Val Undefined) (h2 ! a) c (Val (Num playerId))], newGrid)))"

text \<open>The matrix of values that an address denotes in a store, when it is one.\<close>

fun un_val :: "hval \<Rightarrow> jsval option" where
  "un_val (Val v) = Some v"
| "un_val (Ref _) = None"

definition read_row :: "store \<Rightarrow> hval \<Rightarrow> jsval list option" where
  "read_row h v =
     (case v of
        Val _ \<Rightarrow> None
      | Ref a \<Rightarrow>
          if a < length h \<and> list_all (\<lambda>x. un_val x \<noteq> None) (h ! a)
          then Some (map (\<lambda>x. the (un_val x)) (h ! a)) else None)"

definition read_grid :: "store \<Rightarrow> nat \<Rightarrow> Grid option" where
  "read_grid h g =
     (if g < length h \<and> list_all (\<lambda>v. read_row h v \<noteq> None) (h ! g)
      then Some (map (\<lambda>v. the (read_row h v)) (h ! g)) else None)"

text \<open>The address in a reference, and the references that name an array of the store.\<close>

fun target :: "hval \<Rightarrow> nat" where
  "target (Ref a) = a"
| "target (Val _) = 0"

definition is_row :: "store \<Rightarrow> hval \<Rightarrow> bool" where
  "is_row h v \<longleftrightarrow> (\<exists>a. v = Ref a \<and> a < length h)"

text \<open>A store with the empty grid at address 0, its rows at 1, 2 and 3.\<close>

definition empty_grid_store :: store where
  "empty_grid_store =
     [[Ref 1, Ref 2, Ref 3],
      [Val (Num 0), Val (Num 0), Val (Num 0)],
      [Val (Num 0), Val (Num 0), Val (Num 0)],
      [Val (Num 0), Val (Num 0), Val (Num 0)]]"

text \<open>A full grid in which the first player holds the top row, and the grid of Scenario B.\<close>

definition full_won_grid :: Grid where
  "full_won_grid =
     [[Num 1, Num 1, Num 1],
      [Num 2, Num 1, Num 2],
      [Num 2, Num 2, Num 1]]"

definition scenario_B_grid :: Grid where
  "scenario_B_grid =
     [[Num 1, Num 2, Num 1],
      [Num 2, Num 1, Num 2],
      [Num 2, Num 1, Num 2]]"

section \<open>The database (db/database.ts)\<close>

text \<open>
  A table is the list of its rows in insertion order. \<open>SELECT ... WHERE id = ?\<close> followed
  by \<open>result[0]\<close> is the first matching row, \<open>UPDATE ... WHERE id = ?\<close> rewrites every
  matching row. The grid column holds \<open>JSON.stringify(grid)\<close> and is read back with
  \<open>JSON.parse\<close>, which returns an equal matrix, so the column holds the matrix. The
  timestamp columns are left out.
\<close>

record Player =
  p_id :: int
  p_name :: string
  total_wins :: int
  total_moves_in_wins :: int

record Game =
  g_id :: string
  player1_id :: "int option"
  player2_id :: "int option"
  current_turn_player_id :: "int option"
  status :: GameStatus
  winner_id :: "int option"
  g_grid :: Grid
  move_count :: int

record Move =
  m_id :: int
  m_game_id :: string
  m_player_id :: int
  m_row :: int
  m_col :: int
  move_number :: int

record db =
  players :: "Player list"
  games :: "Game list"
  moves :: "Move list"

definition empty_db :: db where
  "empty_db = \<lparr>players = [], games = [], moves = []\<rparr>"

definition update_where :: "('a \<Rightarrow> bool) \<Rightarrow> ('a \<Rightarrow> 'a) \<Rightarrow> 'a list \<Rightarrow> 'a list" where
  "update_where P f rows = map (\<lambda>x. if P x then f x else x) rows"

text \<open>\<open>INTEGER PRIMARY KEY AUTOINCREMENT\<close> in a table from which nothing is deleted.\<close>

definition next_id :: "int list \<Rightarrow> int" where
  "next_id ids = foldr max ids 0 + 1"

definition getPlayerById :: "db \<Rightarrow> int \<Rightarrow> Player option" where
  "getPlayerById d i = find (\<lambda>p. p_id p = i) (players d)"

text \<open>
  \<open>getGameById\<close> returns the row of the game with the grid column parsed
  (\<open>grid: JSON.parse(game.grid)\<close>): its grid is the matrix itself, not the text of the
  column. The names of the two players that it attaches are read by no route.
\<close>

definition getGameById :: "db \<Rightarrow> string \<Rightarrow> Game option" where
  "getGameById d gameId = find (\<lambda>g. g_id g = gameId) (games d)"

text \<open>
  The functions that write return the database after the call and the value or the
  error. A \<open>throw\<close> inside \<open>db.transaction\<close> rolls the transaction back: the database
  returned with an error is the one received.
\<close>

definition createPlayer :: "db \<Rightarrow> string \<Rightarrow> db \<times> (error + Player)" where
  "createPlayer d nm =
     (if nm \<in> set (map p_name (players d)) then (d, Inl ConstraintViolation)
      else
        let p = \<lparr>p_id = next_id (map p_id (players d)), p_name = nm,
                 total_wins = 0, total_moves_in_wins = 0\<rparr>
        in (d\<lparr>players := players d @ [p]\<rparr>, Inr p))"

definition createGame :: "db \<Rightarrow> int \<Rightarrow> string \<Rightarrow> Grid \<Rightarrow> db \<times> (error + Game)" where
  "createGame d playerId gameId grid =
     (if gameId \<in> set (map g_id (games d)) then (d, Inl ConstraintViolation)
      else
        let g = \<lparr>g_id = gameId, player1_id = Some playerId, player2_id = None,
                 current_turn_player_id = Some playerId, status = waiting,
                 winner_id = None, g_grid = grid, move_count = 0\<rparr>
        in (d\<lparr>games := games d @ [g]\<rparr>, Inr g))"

definition joinGame :: "db \<Rightarrow> string \<Rightarrow> int \<Rightarrow> db \<times> (error + Game)" where
  "joinGame d gameId playerId =
     (case getGameById d gameId of
        None \<Rightarrow> (d, Inl GameNotFound)
      | Some gameData \<Rightarrow>
          if status gameData \<noteq> waiting then (d, Inl NotWaiting)
          else if player1_id gameData = Some playerId then (d, Inl OwnGame)
          else
            let upd = (\<lambda>g. g\<lparr>player2_id := Some playerId, status := in_progress\<rparr>)
            in (d\<lparr>games := update_where (\<lambda>g. g_id g = gameId) upd (games d)\<rparr>,
                Inr (upd gameData)))"

text \<open>
  The \<open>SET\<close> clauses of the two \<open>UPDATE\<close> statements of \<open>makeMove\<close>: the row of the
  game, and the statistics of the winner.
\<close>

definition set_game :: "Grid \<Rightarrow> int \<Rightarrow> int option \<Rightarrow> GameStatus \<Rightarrow> int option \<Rightarrow> Game \<Rightarrow> Game" where
  "set_game newGrid moveNumber turn newStatus winnerId g =
     g\<lparr>g_grid := newGrid, move_count := moveNumber, current_turn_player_id := turn,
       status := newStatus, winner_id := winnerId\<rparr>"

definition set_stats :: "int \<Rightarrow> Player \<Rightarrow> Player" where
  "set_stats moveNumber p =
     p\<lparr>total_wins := total_wins p + 1,
       total_moves_in_wins := total_moves_in_wins p + moveNumber\<rparr>"

text \<open>
  \<open>makeMove\<close> of the database module, named \<open>dbMakeMove\<close> as the routes import it. The
  new grid, the new status and the winner are computed by the caller. \<open>if (winnerId)\<close>
  is false for \<open>null\<close> and for 0.
\<close>

definition dbMakeMove ::
  "db \<Rightarrow> string \<Rightarrow> int \<Rightarrow> int \<Rightarrow> int \<Rightarrow> Grid \<Rightarrow> GameStatus \<Rightarrow> int option
     \<Rightarrow> db \<times> (error + Game \<times> int)" where
  "dbMakeMove d gameId playerId r c newGrid newStatus winnerId =
     (case getGameById d gameId of
        None \<Rightarrow> (d, Inl GameNotFound)
      | Some game \<Rightarrow>
          if status game \<noteq> in_progress then (d, Inl NotInProgress)
          else if current_turn_player_id game \<noteq> Some playerId then (d, Inl NotYourTurn)
          else
            (case cellIs (g_grid game) r c 0 of
               Inl e \<Rightarrow> (d, Inl e)
             | Inr isFree \<Rightarrow>
                 if \<not> isFree then (d, Inl CellOccupied)
                 else
                   let moveNumber = move_count game + 1;
                       nextPlayerId =
                         (if player1_id game = Some playerId then player2_id game
                          else player1_id game);
                       upd = set_game newGrid moveNumber
                               (if newStatus = in_progress then nextPlayerId
                                else current_turn_player_id game)
                               newStatus winnerId;
                       mv = \<lparr>m_id = next_id (map m_id (moves d)), m_game_id = gameId,
                             m_player_id = playerId, m_row = r, m_col = c,
                             move_number = moveNumber\<rparr>;
                       ps = (case winnerId of
                               None \<Rightarrow> players d
                             | Some w \<Rightarrow>
                                 if w = 0 then players d
                                 else update_where (\<lambda>p. p_id p = w) (set_stats moveNumber)
                                        (players d))
                   in (\<lparr>players = ps,
                        games = update_where (\<lambda>g. g_id g = gameId) upd (games d),
                        moves = moves d @ [mv]\<rparr>,
                       Inr (upd game, moveNumber))))"

section \<open>Ranking (getLeaderboard)\<close>

text \<open>
  The two queries select the players with \<open>total_wins > 0\<close>, order them by one
  expression (\<open>total_wins DESC\<close>, or moves per win \<open>ASC\<close>), number the rows with
  \<open>ROW_NUMBER()\<close> and keep three. The order of rows with equal keys is not written in
  the query: it is the storage engine's. So the rows the engine delivers are any
  arrangement of the selected players that is sorted by the key, and the answer is
  computed from them. The quotient and its rounding are exact here, where the query
  divides and rounds doubles: a key or a rounded value can differ from SQLite's in the
  last place, and keys that differ here by less than a double resolves are equal there.
\<close>

datatype LeaderboardBy = by_wins | by_efficiency

record LeaderboardEntry =
  e_rank :: int
  e_playerId :: int
  e_name :: string
  e_value :: rat

definition moves_per_win :: "Player \<Rightarrow> rat" where
  "moves_per_win p = of_int (total_moves_in_wins p) / of_int (total_wins p)"

definition order_key :: "LeaderboardBy \<Rightarrow> Player \<Rightarrow> rat" where
  "order_key b p =
     (case b of by_wins \<Rightarrow> - of_int (total_wins p) | by_efficiency \<Rightarrow> moves_per_win p)"

definition selected_rows :: "LeaderboardBy \<Rightarrow> db \<Rightarrow> Player list \<Rightarrow> bool" where
  "selected_rows b d rows \<longleftrightarrow>
     mset rows = mset (filter (\<lambda>p. total_wins p > 0) (players d))
     \<and> sorted (map (order_key b) rows)"

text \<open>\<open>ROUND(x, 2)\<close>: to two decimals, halves away from zero.\<close>

definition round2 :: "rat \<Rightarrow> rat" where
  "round2 x =
     (if x < 0 then - of_int \<lfloor>- x * 100 + 1 / 2\<rfloor> / 100 else of_int \<lfloor>x * 100 + 1 / 2\<rfloor> / 100)"

definition entry_value :: "LeaderboardBy \<Rightarrow> Player \<Rightarrow> rat" where
  "entry_value b p =
     (case b of by_wins \<Rightarrow> of_int (total_wins p) | by_efficiency \<Rightarrow> round2 (moves_per_win p))"

definition leaderboard_of :: "LeaderboardBy \<Rightarrow> Player list \<Rightarrow> LeaderboardEntry list" where
  "leaderboard_of b rows =
     map (\<lambda>(i, p). \<lparr>e_rank = int i + 1, e_playerId = p_id p, e_name = p_name p,
                     e_value = entry_value b p\<rparr>)
       (enumerate 0 (take 3 rows))"

definition getLeaderboard :: "db \<Rightarrow> LeaderboardBy \<Rightarrow> LeaderboardEntry list \<Rightarrow> bool" where
  "getLeaderboard d b res \<longleftrightarrow> (\<exists>rows. selected_rows b d rows \<and> res = leaderboard_of b rows)"

text \<open>Two tables of players: two winners with equal statistics, and two with different ones.\<close>

section \<open>The routes (routes/api.ts)\<close>

text \<open>
  A handler receives the database and the fields of the request, already of the types
  the handler insists on (\<open>playerId\<close>, \<open>row\<close> and \<open>col\<close> are integers), and returns
  the database and the reply: the payload, or the status code and the message of the
  error. \<open>!playerId\<close> refuses 0. A handler runs from its first read to its commit
  without another request in between.
\<close>

type_synonym 'a reply = "(nat \<times> string) + 'a"

text \<open>
  The handlers of \<open>GET /games/:gameId\<close> and of the move call \<open>JSON.parse(game.grid)\<close>
  on the game that \<open>getGameById\<close> returned, whose grid is already a matrix.
  \<open>JSON.parse\<close> converts its argument to a string first, and an array becomes its
  elements joined by commas, the inner arrays likewise: \<open>[[0,0,0],[0,0,0],[0,0,0]]\<close>
  becomes \<open>0,0,0,0,0,0,0,0,0\<close>. A matrix with one row of one number gives the text of
  that number, which parses to the number; every other matrix gives the empty text or a
  text with a comma in it, which is not JSON, and \<open>JSON.parse\<close> throws.
\<close>

datatype parsed = Matrix Grid | Number int

definition json_parse_matrix :: "Grid \<Rightarrow> error + parsed" where
  "json_parse_matrix grid = (case grid of [[Num n]] \<Rightarrow> Inr (Number n) | _ \<Rightarrow> Inl SyntaxError)"

text \<open>
  \<open>isMoveValid\<close> and \<open>makeMove\<close> on what \<open>JSON.parse\<close> returned. On a number,
  \<open>grid[row]\<close> is \<open>undefined\<close> and \<open>grid[row][col]\<close> throws, and \<open>grid.map\<close> is not a
  function.
\<close>

definition isMoveValid_of :: "parsed \<Rightarrow> int \<Rightarrow> int \<Rightarrow> error + bool" where
  "isMoveValid_of currentGrid r c =
     (case currentGrid of
        Matrix grid \<Rightarrow> isMoveValid grid r c
      | Number n \<Rightarrow> if r < 0 \<or> r > 2 \<or> c < 0 \<or> c > 2 then Inr False else Inl TypeError)"

definition makeMove_of :: "parsed \<Rightarrow> int \<Rightarrow> int \<Rightarrow> int \<Rightarrow> error + Grid" where
  "makeMove_of currentGrid r c playerId =
     (case currentGrid of
        Matrix grid \<Rightarrow> makeMove grid r c playerId
      | Number n \<Rightarrow> Inl TypeError)"

record Created =
  c_gameId :: string
  c_status :: GameStatus
  c_grid :: Grid

record Joined =
  j_gameId :: string
  j_status :: GameStatus
  j_current_turn_player_id :: "int option"

record GameView =
  v_gameId :: string
  v_status :: GameStatus
  v_player1_id :: "int option"
  v_player2_id :: "int option"
  v_current_turn_player_id :: "int option"
  v_winner_id :: "int option"
  v_grid :: parsed

record MoveAccepted =
  a_gameId :: string
  a_newStatus :: GameStatus
  a_winner_id :: "int option"

definition bad_playerId :: "nat \<times> string" where
  "bad_playerId = (400, ''playerId is required and must be a number'')"

definition internal_error :: "nat \<times> string" where
  "internal_error = (500, ''Internal server error'')"

text \<open>
  \<open>POST /games\<close> parses the grid of the row that \<open>createGame\<close> returned, which is the
  text of the column: the reply carries the matrix.
\<close>

definition post_games :: "db \<Rightarrow> int \<Rightarrow> string \<Rightarrow> db \<times> Created reply" where
  "post_games d playerId gameId =
     (if playerId = 0 then (d, Inl bad_playerId)
      else case getPlayerById d playerId of
        None \<Rightarrow> (d, Inl (404, ''Player not found''))
      | Some player \<Rightarrow>
          (case createGame d playerId gameId createEmptyGrid of
             (d', Inl e) \<Rightarrow> (d', Inl internal_error)
           | (d', Inr game) \<Rightarrow>
               (d', Inr \<lparr>c_gameId = g_id game, c_status = status game, c_grid = g_grid game\<rparr>)))"

fun join_error :: "error \<Rightarrow> nat \<times> string" where
  "join_error GameNotFound = (404, ''Game not found'')"
| "join_error NotWaiting = (409, ''Game is not in waiting state'')"
| "join_error OwnGame = (409, ''Cannot join your own game'')"
| "join_error _ = internal_error"

definition post_join :: "db \<Rightarrow> string \<Rightarrow> int \<Rightarrow> db \<times> Joined reply" where
  "post_join d gameId playerId =
     (if playerId = 0 then (d, Inl bad_playerId)
      else case getPlayerById d playerId of
        None \<Rightarrow> (d, Inl (404, ''Player not found''))
      | Some player \<Rightarrow>
          (case getGameById d gameId of
             None \<Rightarrow> (d, Inl (404, ''Game not found''))
           | Some game \<Rightarrow>
               (case joinGame d gameId playerId of
                  (d', Inl e) \<Rightarrow> (d', Inl (join_error e))
                | (d', Inr updatedGame) \<Rightarrow>
                    (d', Inr \<lparr>j_gameId = g_id updatedGame, j_status = status updatedGame,
                              j_current_turn_player_id =
                                current_turn_player_id updatedGame\<rparr>))))"

definition get_game :: "db \<Rightarrow> string \<Rightarrow> GameView reply" where
  "get_game d gameId =
     (case getGameById d gameId of
        None \<Rightarrow> Inl (404, ''Game not found'')
      | Some game \<Rightarrow>
          (case json_parse_matrix (g_grid game) of
             Inl e \<Rightarrow> Inl internal_error
           | Inr grid \<Rightarrow>
               Inr \<lparr>v_gameId = g_id game, v_status = status game,
                    v_player1_id = player1_id game, v_player2_id = player2_id game,
                    v_current_turn_player_id = current_turn_player_id game,
                    v_winner_id = winner_id game, v_grid = grid\<rparr>))"

text \<open>
  The block \<open>// Check game state\<close> of the move handler: the new status and the winner,
  from the grid after the mark.
\<close>

definition checkGameState :: "Grid \<Rightarrow> int \<Rightarrow> int \<Rightarrow> error + GameStatus \<times> int option" where
  "checkGameState newGrid playerNumber playerId =
     (case checkWin newGrid playerNumber of
        Inl e \<Rightarrow> Inl e
      | Inr won \<Rightarrow>
          if won then Inr (win, Some playerId)
          else (case checkDraw newGrid of
                  Inl e \<Rightarrow> Inl e
                | Inr full \<Rightarrow> if full then Inr (draw, None) else Inr (in_progress, None)))"

fun move_error :: "error \<Rightarrow> nat \<times> string" where
  "move_error GameNotFound = (404, ''Game not found'')"
| "move_error NotInProgress = (403, ''Game is not in progress'')"
| "move_error NotYourTurn = (403, ''Not your turn'')"
| "move_error CellOccupied = (409, ''Cell is already occupied'')"
| "move_error _ = internal_error"

definition post_move :: "db \<Rightarrow> string \<Rightarrow> int \<Rightarrow> int \<Rightarrow> int \<Rightarrow> db \<times> MoveAccepted reply" where
  "post_move d gameId playerId r c =
     (if playerId = 0 then (d, Inl bad_playerId)
      else case getPlayerById d playerId of
        None \<Rightarrow> (d, Inl (404, ''Player not found''))
      | Some player \<Rightarrow>
          (case getGameById d gameId of
             None \<Rightarrow> (d, Inl (404, ''Game not found''))
           | Some game \<Rightarrow>
               if status game \<noteq> in_progress then (d, Inl (403, ''Game is not in progress''))
               else if current_turn_player_id game \<noteq> Some playerId
                 then (d, Inl (403, ''Not your turn''))
               else
                 (case json_parse_matrix (g_grid game) of
                    Inl e \<Rightarrow> (d, Inl internal_error)
                  | Inr currentGrid \<Rightarrow>
                 (case isMoveValid_of currentGrid r c of
                    Inl e \<Rightarrow> (d, Inl internal_error)
                  | Inr valid \<Rightarrow>
                      if \<not> valid
                      then (d, Inl (409,
                        ''Invalid move: cell is already occupied or out of bounds''))
                      else
                        let playerNumber = (if player1_id game = Some playerId then 1 else 2)
                        in
                        (case makeMove_of currentGrid r c playerNumber of
                           Inl e \<Rightarrow> (d, Inl internal_error)
                         | Inr newGrid \<Rightarrow>
                             (case checkGameState newGrid playerNumber playerId of
                                Inl e \<Rightarrow> (d, Inl internal_error)
                              | Inr (newStatus, winnerId) \<Rightarrow>
                                  (case dbMakeMove d gameId playerId r c newGrid newStatus
                                          winnerId of
                                     (d', Inl e) \<Rightarrow> (d', Inl (move_error e))
                                   | (d', Inr (game', moveNumber)) \<Rightarrow>
                                       (d', Inr \<lparr>a_gameId = g_id game',
                                                 a_newStatus = status game',
                                                 a_winner_id = winner_id game'\<rparr>))))))))"

section \<open>Reachable databases\<close>

text \<open>
  The databases that the service can be in: the empty one, and every one that a call of
  a function of the database module or of a handler leaves, accepted or refused, with
  any arguments.
\<close>

inductive reachable :: "db \<Rightarrow> bool" where
  r_init: "reachable empty_db"
| r_player: "reachable d \<Longrightarrow> reachable (fst (createPlayer d nm))"
| r_create: "reachable d \<Longrightarrow> reachable (fst (createGame d playerId gameId grid))"
| r_join: "reachable d \<Longrightarrow> reachable (fst (joinGame d gameId playerId))"
| r_move: "reachable d \<Longrightarrow>
     reachable (fst (dbMakeMove d gameId playerId r c newGrid newStatus winnerId))"
| r_post_games: "reachable d \<Longrightarrow> reachable (fst (post_games d playerId gameId))"
| r_post_join: "reachable d \<Longrightarrow> reachable (fst (post_join d gameId playerId))"
| r_post_move: "reachable d \<Longrightarrow> reachable (fst (post_move d gameId playerId r c))"




definition turn_inv :: "Game \<Rightarrow> bool" where
  "turn_inv g \<longleftrightarrow> (status g = win \<or> status g = draw \<longrightarrow> current_turn_player_id g \<noteq> None)"

text \<open>The eight lines of the grid.\<close>

definition winning_lines :: "(nat \<times> nat) list list" where
  "winning_lines =
     [[(0, 0), (0, 1), (0, 2)], [(1, 0), (1, 1), (1, 2)], [(2, 0), (2, 1), (2, 2)],
      [(0, 0), (1, 0), (2, 0)], [(0, 1), (1, 1), (2, 1)], [(0, 2), (1, 2), (2, 2)],
      [(0, 0), (1, 1), (2, 2)], [(0, 2), (1, 1), (2, 0)]]"

section \<open>A game played on the database module\<close>

text \<open>
  Two players register (ids 1 and 2), the first creates the game \<open>''g''\<close> and the second
  joins it, through the handlers. The moves are calls of \<open>makeMove\<close> of the database
  module, each with the grid, the status and the winner that it is to store.
\<close>

definition nums :: "int list list \<Rightarrow> Grid" where
  "nums rows = map (map Num) rows"

fun db_play ::
  "db \<Rightarrow> string \<Rightarrow> (int \<times> int \<times> int \<times> Grid \<times> GameStatus \<times> int option) list \<Rightarrow> db" where
  "db_play d gameId [] = d"
| "db_play d gameId ((playerId, r, c, newGrid, newStatus, winnerId) # ms) =
     db_play (fst (dbMakeMove d gameId playerId r c newGrid newStatus winnerId)) gameId ms"

definition waiting_room :: db where
  "waiting_room =
     fst (post_games (fst (createPlayer (fst (createPlayer empty_db ''A'')) ''B'')) 1 ''g'')"

definition lobby :: db where
  "lobby = fst (post_join waiting_room ''g'' 2)"

text \<open>Scenario A: the first four moves, and the fifth, which completes the top row.\<close>

definition scenario_A_before :: db where
  "scenario_A_before =
     db_play lobby ''g''
       [(1, 0, 0, nums [[1, 0, 0], [0, 0, 0], [0, 0, 0]], in_progress, None),
        (2, 1, 1, nums [[1, 0, 0], [0, 2, 0], [0, 0, 0]], in_progress, None),
        (1, 0, 1, nums [[1, 1, 0], [0, 2, 0], [0, 0, 0]], in_progress, None),
        (2, 1, 0, nums [[1, 1, 0], [2, 2, 0], [0, 0, 0]], in_progress, None)]"

definition scenario_A :: db where
  "scenario_A =
     db_play scenario_A_before ''g''
       [(1, 0, 2, nums [[1, 1, 1], [2, 2, 0], [0, 0, 0]], win, Some 1)]"


section \<open>Arrays\<close>

lemma js_put_in_range:
  "0 \<le> i \<Longrightarrow> nat i < length xs \<Longrightarrow> js_put hole xs i v = xs[nat i := v]"
  unfolding js_put_def by (simp add: nat_less_iff)

lemma js_get_in_range:
  "0 \<le> i \<Longrightarrow> nat i < length xs \<Longrightarrow> js_get xs i = Some (xs ! nat i)"
  unfolding js_get_def by (simp add: nat_less_iff)

lemma list_all_update:
  "list_all P xs \<Longrightarrow> P v \<Longrightarrow> list_all P (xs[i := v])"
  by (induction xs arbitrary: i) (auto split: nat.splits)

lemma list3: "length xs = 3 \<Longrightarrow> \<exists>a b c. xs = [a, b, c]"
  by (auto simp: numeral_3_eq_3 length_Suc_conv)

lemma all_less_3: "(\<forall>i<3. P i) \<longleftrightarrow> P 0 \<and> P (Suc 0) \<and> P (Suc (Suc 0))"
  by (auto simp: numeral_3_eq_3 less_Suc_eq)

section \<open>Grid logic on 3 by 3 grids\<close>

lemma is3x3_shape:
  assumes "is3x3 grid"
  shows "\<exists>a b c d e f g h i. grid = [[a, b, c], [d, e, f], [g, h, i]]"
proof -
  from assms obtain r0 r1 r2 where g: "grid = [r0, r1, r2]"
    unfolding is3x3_def using list3 by blast
  with assms have "length r0 = 3" "length r1 = 3" "length r2 = 3"
    by (simp_all add: is3x3_def)
  then show ?thesis using g list3 by metis
qed

lemma cellIs_3x3:
  "cellIs [[a, b, c], [d, e, f], [g, h, i]] r k n =
     (if 0 \<le> r \<and> r \<le> 2
      then Inr (0 \<le> k \<and> k \<le> 2 \<and> [[a, b, c], [d, e, f], [g, h, i]] ! nat r ! nat k = Num n)
      else Inl TypeError)"
proof -
  have r: "0 \<le> r \<and> r \<le> 2 \<Longrightarrow> r = 0 \<or> r = 1 \<or> r = 2" by arith
  have k: "0 \<le> k \<and> k \<le> 2 \<Longrightarrow> k = 0 \<or> k = 1 \<or> k = 2" by arith
  show ?thesis
    using r k by (auto simp: cellIs_def js_get_def cell_of_def)
qed

text \<open>
  C9. On a 3 by 3 grid \<open>isMoveValid\<close> returns, without throwing, true exactly when
  \<open>0 \<le> row \<le> 2\<close>, \<open>0 \<le> col \<le> 2\<close> and the cell at (row, col) is 0; coordinates out of
  range give false.
\<close>

theorem isMoveValid_iff:
  assumes "is3x3 grid"
  shows "isMoveValid grid r c =
           Inr (0 \<le> r \<and> r \<le> 2 \<and> 0 \<le> c \<and> c \<le> 2 \<and> grid ! nat r ! nat c = Num 0)"
proof -
  from is3x3_shape [OF assms] obtain a b c' d e f g h i
    where "grid = [[a, b, c'], [d, e, f], [g, h, i]]" by blast
  then show ?thesis
    by (auto simp: isMoveValid_def cellIs_3x3)
qed

theorem isMoveValid_iff_witness:
  "is3x3 createEmptyGrid
   \<and> isMoveValid createEmptyGrid 1 1 = Inr True
   \<and> isMoveValid createEmptyGrid 3 0 = Inr False
   \<and> isMoveValid scenario_B_grid 0 2 = Inr False"
proof -
  have e: "is3x3 createEmptyGrid" and b: "is3x3 scenario_B_grid"
    by (simp_all add: is3x3_def createEmptyGrid_def scenario_B_grid_def)
  show ?thesis
    using e isMoveValid_iff [OF e, of 1 1] isMoveValid_iff [OF e, of 3 0]
      isMoveValid_iff [OF b, of 0 2]
    by (simp add: createEmptyGrid_def scenario_B_grid_def)
qed

lemma checkDraw_3x3:
  assumes "is3x3 grid"
  shows "checkDraw grid = Inr (\<forall>r<3. \<forall>c<3. grid ! r ! c \<noteq> Num 0)"
proof -
  from is3x3_shape [OF assms] obtain a b c' d e f g h i
    where "grid = [[a, b, c'], [d, e, f], [g, h, i]]" by blast
  then show ?thesis
    by (simp add: checkDraw_def cellIs_3x3 all_less_3)
qed

lemma checkGameState_draw:
  "checkGameState newGrid n playerId = Inr (draw, w) \<longleftrightarrow>
     w = None \<and> checkWin newGrid n = Inr False \<and> checkDraw newGrid = Inr True"
  by (auto simp: checkGameState_def split: sum.splits)

lemma full_won_grid_checks:
  "checkDraw full_won_grid = Inr True \<and> checkWin full_won_grid 1 = Inr True"
  by code_simp

text \<open>
  C10. On a 3 by 3 grid \<open>checkDraw\<close> is true exactly when no cell is 0, and it does not
  look at lines: on a full grid whose top row the first player holds, \<open>checkDraw\<close> and
  \<open>checkWin\<close> are both true. The move handler asks \<open>checkWin\<close> first: it reports that
  grid as a win, and it reports a draw exactly when \<open>checkWin\<close> is false and
  \<open>checkDraw\<close> is true.
\<close>

theorem checkDraw_only_fullness:
  "(is3x3 grid \<longrightarrow> checkDraw grid = Inr (\<forall>r<3. \<forall>c<3. grid ! r ! c \<noteq> Num 0))
   \<and> checkDraw full_won_grid = Inr True
   \<and> checkWin full_won_grid 1 = Inr True
   \<and> checkGameState full_won_grid 1 playerId = Inr (win, Some playerId)
   \<and> (checkGameState newGrid n playerId = Inr (draw, w) \<longleftrightarrow>
        w = None \<and> checkWin newGrid n = Inr False \<and> checkDraw newGrid = Inr True)"
  using checkDraw_3x3 [of grid] full_won_grid_checks checkGameState_draw [of newGrid n playerId w]
  by (simp add: checkGameState_def)

theorem checkDraw_only_fullness_witness:
  "is3x3 scenario_B_grid
   \<and> checkDraw scenario_B_grid = Inr True
   \<and> checkWin scenario_B_grid 1 = Inr False
   \<and> checkGameState scenario_B_grid 1 7 = Inr (draw, None)"
proof -
  have b: "is3x3 scenario_B_grid"
    by (simp add: is3x3_def scenario_B_grid_def)
  have w: "checkWin scenario_B_grid 1 = Inr False"
    by code_simp
  have d: "checkDraw scenario_B_grid = Inr True"
    using checkDraw_only_fullness [of scenario_B_grid 7 scenario_B_grid 1 None] b
    by (simp add: scenario_B_grid_def all_less_3)
  show ?thesis
    using checkDraw_only_fullness [of scenario_B_grid 7 scenario_B_grid 1 None] b w d
    by simp
qed

section \<open>makeMove copies\<close>

lemma mapSpread_refs:
  assumes "\<forall>v\<in>set vs. is_row h v"
  shows "mapSpread h vs =
           Inr (h @ map (\<lambda>v. h ! target v) vs, map Ref [length h ..< length h + length vs])"
  using assms
proof (induction vs arbitrary: h)
  case Nil
  then show ?case by simp
next
  case (Cons v vs)
  from Cons.prems obtain a where v: "v = Ref a" "a < length h"
    by (auto simp: is_row_def)
  let ?h1 = "h @ [h ! a]"
  have rows: "\<forall>w\<in>set vs. is_row ?h1 w"
    using Cons.prems by (auto simp: is_row_def)
  have same: "map (\<lambda>w. ?h1 ! target w) vs = map (\<lambda>w. h ! target w) vs"
    using Cons.prems by (auto simp: is_row_def nth_append)
  have sp: "spread h v = Inr (?h1, Ref (length h))"
    using v by (simp add: spread_def)
  have "mapSpread ?h1 vs =
          Inr (?h1 @ map (\<lambda>w. ?h1 ! target w) vs,
               map Ref [length ?h1 ..< length ?h1 + length vs])"
    by (rule Cons.IH [OF rows])
  then have step: "mapSpread h (v # vs) =
      Inr (?h1 @ map (\<lambda>w. h ! target w) vs,
           Ref (length h) # map Ref [length ?h1 ..< length ?h1 + length vs])"
    using sp same by simp
  have e1: "?h1 @ map (\<lambda>w. h ! target w) vs = h @ map (\<lambda>w. h ! target w) (v # vs)"
    using v by simp
  have e2: "Ref (length h) # map Ref [length ?h1 ..< length ?h1 + length vs]
              = map Ref [length h ..< length h + length (v # vs)]"
    by (simp add: upt_conv_Cons del: upt_Suc)
  show ?case
    by (simp only: step e1 e2)
qed

lemma read_row_Some:
  "read_row h v = Some rw \<longleftrightarrow>
     (\<exists>a. v = Ref a \<and> a < length h \<and> list_all (\<lambda>x. un_val x \<noteq> None) (h ! a)
          \<and> rw = map (\<lambda>x. the (un_val x)) (h ! a))"
  by (cases v) (auto simp: read_row_def)

lemma read_row_agree:
  assumes "read_row h v = Some rw" and "length h \<le> length h'"
    and "\<forall>a<length h. h' ! a = h ! a"
  shows "read_row h' v = Some rw"
  using assms by (auto simp: read_row_Some)

lemma read_grid_Some:
  "read_grid h g = Some G \<longleftrightarrow>
     g < length h \<and> length G = length (h ! g)
     \<and> (\<forall>i<length (h ! g). read_row h (h ! g ! i) = Some (G ! i))"
proof
  assume a: "read_grid h g = Some G"
  then have g: "g < length h" and all: "list_all (\<lambda>v. read_row h v \<noteq> None) (h ! g)"
    and G: "G = map (\<lambda>v. the (read_row h v)) (h ! g)"
    by (auto simp: read_grid_def split: if_splits)
  show "g < length h \<and> length G = length (h ! g)
     \<and> (\<forall>i<length (h ! g). read_row h (h ! g ! i) = Some (G ! i))"
    using g all G by (auto simp: list_all_length)
next
  assume a: "g < length h \<and> length G = length (h ! g)
     \<and> (\<forall>i<length (h ! g). read_row h (h ! g ! i) = Some (G ! i))"
  then have "list_all (\<lambda>v. read_row h v \<noteq> None) (h ! g)"
    by (auto simp: list_all_length)
  moreover have "map (\<lambda>v. the (read_row h v)) (h ! g) = G"
    using a by (auto intro!: nth_equalityI)
  ultimately show "read_grid h g = Some G"
    using a by (simp add: read_grid_def)
qed

text \<open>
  C8. For a grid in the store and coordinates inside it, \<open>makeMove\<close> returns a new
  matrix that equals the input except that the cell at (row, col) holds the mark (the
  value that \<open>makeMove\<close> on matrices computes); every array that existed before the
  call is as it was, so the input still reads as the same matrix; and the new matrix
  and all its rows are arrays that did not exist before: nothing is shared.
\<close>

theorem makeMove_store_fresh_copy:
  assumes G: "read_grid h g = Some G"
    and r: "0 \<le> r" "nat r < length G"
    and c: "0 \<le> c" "nat c < length (G ! nat r)"
  shows "\<exists>h' g'. makeMove_store h g r c mark = Inr (h', g')
           \<and> read_grid h' g' = Some (G[nat r := (G ! nat r)[nat c := Num mark]])
           \<and> makeMove G r c mark = Inr (G[nat r := (G ! nat r)[nat c := Num mark]])
           \<and> (\<forall>a<length h. h' ! a = h ! a)
           \<and> read_grid h' g = Some G
           \<and> length h \<le> g'
           \<and> (\<forall>v\<in>set (h' ! g'). \<exists>a. v = Ref a \<and> length h \<le> a)"
proof -
  let ?vs = "h ! g"
  let ?n = "length ?vs"
  from G have g: "g < length h" and len: "length G = ?n"
    and rows: "\<forall>i<?n. read_row h (?vs ! i) = Some (G ! i)"
    by (simp_all add: read_grid_Some)
  have isrow: "\<forall>v\<in>set ?vs. is_row h v"
  proof
    fix v assume "v \<in> set ?vs"
    then obtain i where "i < ?n" "?vs ! i = v"
      by (auto simp: in_set_conv_nth)
    with rows have "read_row h v = Some (G ! i)" by auto
    then show "is_row h v"
      by (auto simp: is_row_def read_row_Some)
  qed
  let ?h1 = "h @ map (\<lambda>v. h ! target v) ?vs"
  let ?refs = "map Ref [length h ..< length h + ?n]"
  let ?h2 = "?h1 @ [?refs]"
  let ?a = "length h + nat r"
  let ?g' = "length h + ?n"
  let ?new = "js_put (Val Undefined) (?h2 ! ?a) c (Val (Num mark))"
  let ?h' = "?h2[?a := ?new]"
  have ms: "mapSpread h ?vs = Inr (?h1, ?refs)"
    by (rule mapSpread_refs [OF isrow])
  have rn: "nat r < ?n" using r len by simp
  have get: "js_get ?refs r = Some (Ref ?a)"
    using r rn by (simp add: js_get_in_range)
  have run: "makeMove_store h g r c mark = Inr (?h', ?g')"
    using g ms get by (simp add: makeMove_store_def Let_def)
  obtain ar where ar: "?vs ! nat r = Ref ar" "ar < length h"
      "list_all (\<lambda>x. un_val x \<noteq> None) (h ! ar)"
      "G ! nat r = map (\<lambda>x. the (un_val x)) (h ! ar)"
    using rows rn by (auto simp: read_row_Some)
  have h2a: "?h2 ! ?a = h ! ar"
    using rn ar by (simp add: nth_append)
  have cn: "nat c < length (h ! ar)" using c ar by simp
  have new: "?new = (h ! ar)[nat c := Val (Num mark)]"
    using c cn h2a by (simp only: js_put_in_range)
  have old: "\<forall>a<length h. ?h' ! a = h ! a"
    by (simp add: nth_append)
  have lenh': "length ?h' = length h + ?n + 1" by simp
  have h2g: "?h2 ! ?g' = ?refs"
    by (simp add: nth_append)
  have ne: "?a \<noteq> ?g'" using rn by simp
  have hg': "?h' ! ?g' = ?refs"
    unfolding nth_list_update_neq [OF ne] by (rule h2g)
  have keep: "read_grid ?h' g = Some G"
    unfolding read_grid_Some
  proof (intro conjI allI impI)
    show "g < length ?h'" using g by simp
    show "length G = length (?h' ! g)" using old g len by simp
    fix i assume "i < length (?h' ! g)"
    then have i: "i < ?n" using old g by simp
    then have "read_row h (?vs ! i) = Some (G ! i)" using rows by blast
    then have "read_row ?h' (?vs ! i) = Some (G ! i)"
      by (rule read_row_agree) (use old in simp_all)
    then show "read_row ?h' (?h' ! g ! i) = Some (G ! i)" using old g by simp
  qed
  have fresh: "read_grid ?h' ?g' = Some (G[nat r := (G ! nat r)[nat c := Num mark]])"
    unfolding read_grid_Some
  proof (intro conjI allI impI)
    show "?g' < length ?h'" by simp
    show "length (G[nat r := (G ! nat r)[nat c := Num mark]]) = length (?h' ! ?g')"
      using hg' len by simp
    fix i assume "i < length (?h' ! ?g')"
    then have i: "i < ?n" using hg' by simp
    then obtain ai where ai: "?vs ! i = Ref ai" "ai < length h"
      "list_all (\<lambda>x. un_val x \<noteq> None) (h ! ai)"
      "G ! i = map (\<lambda>x. the (un_val x)) (h ! ai)"
      using rows by (auto simp: read_row_Some)
    have ref: "?h' ! ?g' ! i = Ref (length h + i)"
      using hg' i by simp
    show "read_row ?h' (?h' ! ?g' ! i) = Some (G[nat r := (G ! nat r)[nat c := Num mark]] ! i)"
    proof (cases "i = nat r")
      case True
      have "?h' ! (length h + i) = (h ! ar)[nat c := Val (Num mark)]"
        using True new rn by (simp add: nth_append)
      moreover have "list_all (\<lambda>x. un_val x \<noteq> None) ((h ! ar)[nat c := Val (Num mark)])"
        using ar(3) by (rule list_all_update) simp
      moreover have "map (\<lambda>x. the (un_val x)) ((h ! ar)[nat c := Val (Num mark)])
                       = (G ! nat r)[nat c := Num mark]"
        using ar(4) by (simp add: map_update)
      ultimately show ?thesis
        using ref True rn len i by (simp add: read_row_Some)
    next
      case False
      have "?h' ! (length h + i) = h ! ai"
        using False i ai by (simp add: nth_append)
      then show ?thesis
        using ref False ai i by (simp add: read_row_Some)
    qed
  qed
  have val: "makeMove G r c mark = Inr (G[nat r := (G ! nat r)[nat c := Num mark]])"
    using r c by (simp add: makeMove_def js_get_in_range js_put_in_range)
  have refs: "\<forall>v\<in>set (?h' ! ?g'). \<exists>a. v = Ref a \<and> length h \<le> a"
    unfolding hg' by auto
  show ?thesis
    using run fresh val old keep refs by (intro exI [of _ ?h'] exI [of _ ?g']) simp
qed

theorem makeMove_store_fresh_copy_witness:
  "read_grid empty_grid_store 0 = Some createEmptyGrid
   \<and> (case makeMove_store empty_grid_store 0 1 1 1 of
        Inl e \<Rightarrow> False
      | Inr (h', g') \<Rightarrow>
          read_grid h' g' = Some [[Num 0, Num 0, Num 0], [Num 0, Num 1, Num 0], [Num 0, Num 0, Num 0]]
          \<and> read_grid h' 0 = Some createEmptyGrid
          \<and> 4 \<le> g')"
proof -
  have G: "read_grid empty_grid_store 0 = Some createEmptyGrid"
    by (simp add: read_grid_def read_row_def empty_grid_store_def createEmptyGrid_def)
  have "\<exists>h' g'. makeMove_store empty_grid_store 0 1 1 1 = Inr (h', g')
           \<and> read_grid h' g' = Some (createEmptyGrid[nat 1 := (createEmptyGrid ! nat 1)[nat 1 := Num 1]])
           \<and> makeMove createEmptyGrid 1 1 1 = Inr (createEmptyGrid[nat 1 := (createEmptyGrid ! nat 1)[nat 1 := Num 1]])
           \<and> (\<forall>a<length empty_grid_store. h' ! a = empty_grid_store ! a)
           \<and> read_grid h' 0 = Some createEmptyGrid
           \<and> length empty_grid_store \<le> g'
           \<and> (\<forall>v\<in>set (h' ! g'). \<exists>a. v = Ref a \<and> length empty_grid_store \<le> a)"
    by (rule makeMove_store_fresh_copy [OF G]) (simp_all add: createEmptyGrid_def)
  then obtain h' g' where run: "makeMove_store empty_grid_store 0 1 1 1 = Inr (h', g')"
    and new: "read_grid h' g' = Some (createEmptyGrid[nat 1 := (createEmptyGrid ! nat 1)[nat 1 := Num 1]])"
    and old: "read_grid h' 0 = Some createEmptyGrid"
    and fresh: "length empty_grid_store \<le> g'"
    by blast
  have "createEmptyGrid[nat 1 := (createEmptyGrid ! nat 1)[nat 1 := Num 1]]
          = [[Num 0, Num 0, Num 0], [Num 0, Num 1, Num 0], [Num 0, Num 0, Num 0]]"
    by (simp add: createEmptyGrid_def)
  then show ?thesis
    using G run new old fresh by (simp add: empty_grid_store_def)
qed

section \<open>The eight lines\<close>

lemma checkWin_3x3:
  assumes "is3x3 grid"
  shows "checkWin grid n =
           Inr (\<exists>l\<in>set winning_lines. \<forall>(i, j)\<in>set l. grid ! i ! j = Num n)"
proof -
  from is3x3_shape [OF assms] obtain a b c d e f g h i
    where "grid = [[a, b, c], [d, e, f], [g, h, i]]" by blast
  then show ?thesis
    by (auto simp: checkWin_def line3_def andAlso_def orReturn_def cellIs_3x3 winning_lines_def)
qed

section \<open>The game played on the database module, evaluated\<close>

lemma scenario_A_before_value:
  "scenario_A_before =
     \<lparr>players =
        [\<lparr>p_id = 1, p_name = ''A'', total_wins = 0, total_moves_in_wins = 0\<rparr>,
         \<lparr>p_id = 2, p_name = ''B'', total_wins = 0, total_moves_in_wins = 0\<rparr>],
      games =
        [\<lparr>g_id = ''g'', player1_id = Some 1, player2_id = Some 2,
          current_turn_player_id = Some 1, status = in_progress, winner_id = None,
          g_grid = [[Num 1, Num 1, Num 0], [Num 2, Num 2, Num 0], [Num 0, Num 0, Num 0]],
          move_count = 4\<rparr>],
      moves =
        [\<lparr>m_id = 1, m_game_id = ''g'', m_player_id = 1, m_row = 0, m_col = 0, move_number = 1\<rparr>,
         \<lparr>m_id = 2, m_game_id = ''g'', m_player_id = 2, m_row = 1, m_col = 1, move_number = 2\<rparr>,
         \<lparr>m_id = 3, m_game_id = ''g'', m_player_id = 1, m_row = 0, m_col = 1, move_number = 3\<rparr>,
         \<lparr>m_id = 4, m_game_id = ''g'', m_player_id = 2, m_row = 1, m_col = 0, move_number = 4\<rparr>]\<rparr>"
  by code_simp

lemma scenario_A_value:
  "scenario_A =
     \<lparr>players =
        [\<lparr>p_id = 1, p_name = ''A'', total_wins = 1, total_moves_in_wins = 5\<rparr>,
         \<lparr>p_id = 2, p_name = ''B'', total_wins = 0, total_moves_in_wins = 0\<rparr>],
      games =
        [\<lparr>g_id = ''g'', player1_id = Some 1, player2_id = Some 2,
          current_turn_player_id = Some 1, status = win, winner_id = Some 1,
          g_grid = [[Num 1, Num 1, Num 1], [Num 2, Num 2, Num 0], [Num 0, Num 0, Num 0]],
          move_count = 5\<rparr>],
      moves =
        [\<lparr>m_id = 1, m_game_id = ''g'', m_player_id = 1, m_row = 0, m_col = 0, move_number = 1\<rparr>,
         \<lparr>m_id = 2, m_game_id = ''g'', m_player_id = 2, m_row = 1, m_col = 1, move_number = 2\<rparr>,
         \<lparr>m_id = 3, m_game_id = ''g'', m_player_id = 1, m_row = 0, m_col = 1, move_number = 3\<rparr>,
         \<lparr>m_id = 4, m_game_id = ''g'', m_player_id = 2, m_row = 1, m_col = 0, move_number = 4\<rparr>,
         \<lparr>m_id = 5, m_game_id = ''g'', m_player_id = 1, m_row = 0, m_col = 2, move_number = 5\<rparr>]\<rparr>"
  by code_simp


lemma waiting_room_value:
  "waiting_room =
     \<lparr>players =
        [\<lparr>p_id = 1, p_name = ''A'', total_wins = 0, total_moves_in_wins = 0\<rparr>,
         \<lparr>p_id = 2, p_name = ''B'', total_wins = 0, total_moves_in_wins = 0\<rparr>],
      games =
        [\<lparr>g_id = ''g'', player1_id = Some 1, player2_id = None,
          current_turn_player_id = Some 1, status = waiting, winner_id = None,
          g_grid = [[Num 0, Num 0, Num 0], [Num 0, Num 0, Num 0], [Num 0, Num 0, Num 0]],
          move_count = 0\<rparr>],
      moves = []\<rparr>"
  by code_simp

lemma lobby_value:
  "lobby =
     \<lparr>players =
        [\<lparr>p_id = 1, p_name = ''A'', total_wins = 0, total_moves_in_wins = 0\<rparr>,
         \<lparr>p_id = 2, p_name = ''B'', total_wins = 0, total_moves_in_wins = 0\<rparr>],
      games =
        [\<lparr>g_id = ''g'', player1_id = Some 1, player2_id = Some 2,
          current_turn_player_id = Some 1, status = in_progress, winner_id = None,
          g_grid = [[Num 0, Num 0, Num 0], [Num 0, Num 0, Num 0], [Num 0, Num 0, Num 0]],
          move_count = 0\<rparr>],
      moves = []\<rparr>"
  by code_simp

lemma lobby_players:
  "players lobby =
     [\<lparr>p_id = 1, p_name = ''A'', total_wins = 0, total_moves_in_wins = 0\<rparr>,
      \<lparr>p_id = 2, p_name = ''B'', total_wins = 0, total_moves_in_wins = 0\<rparr>]"
  by code_simp

section \<open>Tables\<close>

lemma find_update_where:
  assumes "\<And>x. P (f x) = P x"
  shows "find P (update_where P f xs) = map_option f (find P xs)"
  by (induction xs) (simp_all add: update_where_def assms)

lemma find_game_update_other:
  assumes "\<And>x. g_id (f x) = g_id x" and "other \<noteq> gameId"
  shows "find (\<lambda>g. g_id g = other) (update_where (\<lambda>g. g_id g = gameId) f xs)
           = find (\<lambda>g. g_id g = other) xs"
  using assms by (induction xs) (auto simp: update_where_def)

lemma find_player_update_other:
  assumes "\<And>x. p_id (f x) = p_id x" and "q \<noteq> w"
  shows "find (\<lambda>p. p_id p = q) (update_where (\<lambda>p. p_id p = w) f xs)
           = find (\<lambda>p. p_id p = q) xs"
  using assms by (induction xs) (auto simp: update_where_def)

lemma find_Some_holds: "find P xs = Some x \<Longrightarrow> P x \<and> x \<in> set xs"
  by (induction xs) (auto split: if_splits)

lemma getGameById_id: "getGameById d gameId = Some game \<Longrightarrow> g_id game = gameId"
  unfolding getGameById_def by (drule find_Some_holds) simp

lemma getGameById_mem: "getGameById d gameId = Some game \<Longrightarrow> game \<in> set (games d)"
  unfolding getGameById_def by (drule find_Some_holds) simp

section \<open>Joining\<close>

text \<open>
  C4. \<open>joinGame\<close> checks in this order: an unknown game id gives \<open>'Game not found'\<close>;
  a game whose status is not waiting gives \<open>'Game is not in waiting state'\<close>; a waiting
  game whose first player is the joining player gives \<open>'Cannot join your own game'\<close>.
  In the three cases the database is unchanged. Otherwise the row of the game gets the
  joining player as second player and the status in_progress, and nothing else: the
  current-turn id stays the first player's, the other games, the players and the moves
  are as before.
\<close>

theorem joinGame_outcomes:
  "(getGameById d gameId = None \<longrightarrow> joinGame d gameId playerId = (d, Inl GameNotFound))
   \<and> (\<forall>game. getGameById d gameId = Some game \<longrightarrow>
        (status game \<noteq> waiting \<longrightarrow> joinGame d gameId playerId = (d, Inl NotWaiting))
      \<and> (status game = waiting \<and> player1_id game = Some playerId \<longrightarrow>
           joinGame d gameId playerId = (d, Inl OwnGame))
      \<and> (status game = waiting \<and> player1_id game \<noteq> Some playerId \<longrightarrow>
           (\<exists>d'. joinGame d gameId playerId =
                    (d', Inr (game\<lparr>player2_id := Some playerId, status := in_progress\<rparr>))
                \<and> getGameById d' gameId =
                    Some (game\<lparr>player2_id := Some playerId, status := in_progress\<rparr>)
                \<and> (\<forall>other. other \<noteq> gameId \<longrightarrow> getGameById d' other = getGameById d other)
                \<and> players d' = players d \<and> moves d' = moves d)))"
proof (intro conjI allI impI)
  assume "getGameById d gameId = None"
  then show "joinGame d gameId playerId = (d, Inl GameNotFound)"
    by (simp add: joinGame_def)
next
  fix game assume "getGameById d gameId = Some game" "status game \<noteq> waiting"
  then show "joinGame d gameId playerId = (d, Inl NotWaiting)"
    by (simp add: joinGame_def)
next
  fix game
  assume "getGameById d gameId = Some game"
    "status game = waiting \<and> player1_id game = Some playerId"
  then show "joinGame d gameId playerId = (d, Inl OwnGame)"
    by (simp add: joinGame_def)
next
  fix game
  assume g: "getGameById d gameId = Some game"
    and ok: "status game = waiting \<and> player1_id game \<noteq> Some playerId"
  let ?upd = "\<lambda>g. g\<lparr>player2_id := Some playerId, status := in_progress\<rparr>"
  let ?d' = "d\<lparr>games := update_where (\<lambda>g. g_id g = gameId) ?upd (games d)\<rparr>"
  have run: "joinGame d gameId playerId = (?d', Inr (?upd game))"
    using g ok by (simp add: joinGame_def)
  have this_game: "getGameById ?d' gameId = Some (?upd game)"
    using g by (simp add: getGameById_def find_update_where)
  have others: "\<forall>other. other \<noteq> gameId \<longrightarrow> getGameById ?d' other = getGameById d other"
    by (simp add: getGameById_def find_game_update_other)
  show "\<exists>d'. joinGame d gameId playerId = (d', Inr (?upd game))
          \<and> getGameById d' gameId = Some (?upd game)
          \<and> (\<forall>other. other \<noteq> gameId \<longrightarrow> getGameById d' other = getGameById d other)
          \<and> players d' = players d \<and> moves d' = moves d"
    using run this_game others by (intro exI [of _ ?d']) simp
qed

theorem joinGame_outcomes_witness:
  "getGameById empty_db ''g'' = None
   \<and> joinGame empty_db ''g'' 2 = (empty_db, Inl GameNotFound)
   \<and> getGameById lobby ''g'' = Some (hd (games lobby))
   \<and> status (hd (games lobby)) \<noteq> waiting
   \<and> joinGame lobby ''g'' 2 = (lobby, Inl NotWaiting)
   \<and> getGameById waiting_room ''g'' = Some (hd (games waiting_room))
   \<and> status (hd (games waiting_room)) = waiting
   \<and> player1_id (hd (games waiting_room)) = Some 1
   \<and> joinGame waiting_room ''g'' 1 = (waiting_room, Inl OwnGame)
   \<and> snd (joinGame waiting_room ''g'' 2) =
       Inr \<lparr>g_id = ''g'', player1_id = Some 1, player2_id = Some 2,
            current_turn_player_id = Some 1, status = in_progress, winner_id = None,
            g_grid = createEmptyGrid, move_count = 0\<rparr>"
proof -
  have n: "getGameById empty_db ''g'' = None"
    by (simp add: getGameById_def empty_db_def)
  have g: "getGameById lobby ''g'' = Some (hd (games lobby))"
    and s: "status (hd (games lobby)) \<noteq> waiting"
    unfolding lobby_value by (simp_all add: getGameById_def)
  have g0: "getGameById waiting_room ''g'' = Some (hd (games waiting_room))"
    and s0: "status (hd (games waiting_room)) = waiting"
    and p0: "player1_id (hd (games waiting_room)) = Some 1"
    and q0: "player1_id (hd (games waiting_room)) \<noteq> Some 2"
    and v0: "hd (games waiting_room)\<lparr>player2_id := Some 2, status := in_progress\<rparr> =
               \<lparr>g_id = ''g'', player1_id = Some 1, player2_id = Some 2,
                current_turn_player_id = Some 1, status = in_progress, winner_id = None,
                g_grid = createEmptyGrid, move_count = 0\<rparr>"
    unfolding waiting_room_value by (simp_all add: getGameById_def createEmptyGrid_def)
  have a: "joinGame empty_db ''g'' 2 = (empty_db, Inl GameNotFound)"
    using joinGame_outcomes [of empty_db "''g''" 2] n by blast
  have b: "joinGame lobby ''g'' 2 = (lobby, Inl NotWaiting)"
    using joinGame_outcomes [of lobby "''g''" 2] g s by blast
  have c: "joinGame waiting_room ''g'' 1 = (waiting_room, Inl OwnGame)"
    using joinGame_outcomes [of waiting_room "''g''" 1] g0 s0 p0 by blast
  have "\<exists>d'. joinGame waiting_room ''g'' 2 =
          (d', Inr (hd (games waiting_room)\<lparr>player2_id := Some 2, status := in_progress\<rparr>))"
    using joinGame_outcomes [of waiting_room "''g''" 2] g0 s0 q0 by blast
  then have d: "snd (joinGame waiting_room ''g'' 2) =
       Inr \<lparr>g_id = ''g'', player1_id = Some 1, player2_id = Some 2,
            current_turn_player_id = Some 1, status = in_progress, winner_id = None,
            g_grid = createEmptyGrid, move_count = 0\<rparr>"
    unfolding v0 by auto
  show ?thesis
    by (intro conjI n a g s b g0 s0 p0 c d)
qed

section \<open>The handlers that parse the grid again\<close>

lemma json_parse_matrix_rows:
  "2 \<le> length grid \<Longrightarrow> json_parse_matrix grid = Inl SyntaxError"
  by (auto simp: json_parse_matrix_def split: list.splits jsval.splits)

lemma json_parse_matrix_Number:
  "json_parse_matrix grid = Inr p \<Longrightarrow> \<exists>n. p = Number n"
  by (auto simp: json_parse_matrix_def split: list.splits jsval.splits)

lemma isMoveValid_of_Number: "isMoveValid_of (Number n) r c \<noteq> Inr True"
  by (simp add: isMoveValid_of_def)

lemma post_move_commits_nothing:
  "\<exists>e. post_move d gameId playerId r c = (d, Inl e)"
proof (cases "playerId = 0")
  case True
  then show ?thesis by (simp add: post_move_def)
next
  case pid: False
  show ?thesis
  proof (cases "getPlayerById d playerId")
    case None
    then show ?thesis using pid by (simp add: post_move_def)
  next
    case player: (Some player)
    show ?thesis
    proof (cases "getGameById d gameId")
      case None
      then show ?thesis using pid player by (simp add: post_move_def)
    next
      case game: (Some game)
      show ?thesis
      proof (cases "json_parse_matrix (g_grid game)")
        case (Inl e)
        then show ?thesis using pid player game by (simp add: post_move_def)
      next
        case (Inr p)
        then obtain n where p: "p = Number n"
          using json_parse_matrix_Number by blast
        show ?thesis
          using pid player game Inr p
          by (simp add: post_move_def isMoveValid_of_def)
      qed
    qed
  qed
qed

lemma get_game_fails:
  "getGameById d gameId = Some game \<Longrightarrow> 2 \<le> length (g_grid game) \<Longrightarrow>
     get_game d gameId = Inl internal_error"
  by (simp add: get_game_def json_parse_matrix_rows)

text \<open>
  C5. On a game whose status is won, \<open>makeMove\<close> of the database module throws
  \<open>'Game is not in progress'\<close> whatever the player, the cell and the other arguments are,
  and leaves the database as it was: grid, move count and statistics included. The
  move handler leaves the database as it was too, and for a registered player it
  answers 403 with that message.
\<close>

theorem move_on_won_game_rejected:
  assumes "getGameById d gameId = Some game" and "status game = win"
  shows "dbMakeMove d gameId playerId r c newGrid newStatus winnerId = (d, Inl NotInProgress)
         \<and> fst (post_move d gameId playerId r c) = d
         \<and> (playerId \<noteq> 0 \<and> getPlayerById d playerId \<noteq> None \<longrightarrow>
              post_move d gameId playerId r c = (d, Inl (403, ''Game is not in progress'')))"
  using assms by (auto simp: dbMakeMove_def post_move_def split: option.splits)

theorem move_on_won_game_rejected_witness:
  "getGameById scenario_A ''g'' = Some (hd (games scenario_A))
   \<and> status (hd (games scenario_A)) = win
   \<and> post_move scenario_A ''g'' 1 0 2 = (scenario_A, Inl (403, ''Game is not in progress''))
   \<and> getPlayerById scenario_A 1 =
       Some \<lparr>p_id = 1, p_name = ''A'', total_wins = 1, total_moves_in_wins = 5\<rparr>"
proof -
  have g: "getGameById scenario_A ''g'' = Some (hd (games scenario_A))"
    and s: "status (hd (games scenario_A)) = win"
    and p: "getPlayerById scenario_A 1 =
       Some \<lparr>p_id = 1, p_name = ''A'', total_wins = 1, total_moves_in_wins = 5\<rparr>"
    unfolding scenario_A_value by (simp_all add: getGameById_def getPlayerById_def)
  show ?thesis
    using move_on_won_game_rejected [OF g s, of 1 0 2] g s p by simp
qed

text \<open>
  C1, where the code departs from it. The move handler parses the grid that
  \<open>getGameById\<close> has parsed and answers 500 before it marks the cell. On the fifth move
  of Scenario A the game is in progress, it is the turn of the player who moves, the
  cell is free and the mark completes the top row; the handler answers 500 and
  leaves the database as it was: no status won, no winner, no statistics.
\<close>

theorem winning_move_answers_500:
  "getGameById scenario_A_before ''g'' =
     Some \<lparr>g_id = ''g'', player1_id = Some 1, player2_id = Some 2,
          current_turn_player_id = Some 1, status = in_progress, winner_id = None,
          g_grid = nums [[1, 1, 0], [2, 2, 0], [0, 0, 0]], move_count = 4\<rparr>
   \<and> isMoveValid (nums [[1, 1, 0], [2, 2, 0], [0, 0, 0]]) 0 2 = Inr True
   \<and> makeMove (nums [[1, 1, 0], [2, 2, 0], [0, 0, 0]]) 0 2 1 = Inr (nums [[1, 1, 1], [2, 2, 0], [0, 0, 0]])
   \<and> checkWin (nums [[1, 1, 1], [2, 2, 0], [0, 0, 0]]) 1 = Inr True
   \<and> post_move scenario_A_before ''g'' 1 0 2 =
       (scenario_A_before, Inl (500, ''Internal server error''))"
  by code_simp

section \<open>Moves stored by the database module\<close>




lemma post_games_games:
  "games (fst (post_games d playerId gameId)) = games d
   \<or> games (fst (post_games d playerId gameId)) =
       games d @ [\<lparr>g_id = gameId, player1_id = Some playerId, player2_id = None,
                    current_turn_player_id = Some playerId, status = waiting,
                    winner_id = None, g_grid = createEmptyGrid, move_count = 0\<rparr>]"
  by (auto simp: post_games_def createGame_def Let_def split: option.splits)

lemma post_join_games:
  "games (fst (post_join d gameId playerId)) = games d
   \<or> games (fst (post_join d gameId playerId)) =
       update_where (\<lambda>g. g_id g = gameId)
         (\<lambda>g. g\<lparr>player2_id := Some playerId, status := in_progress\<rparr>) (games d)"
  by (auto simp: post_join_def joinGame_def Let_def split: option.splits)

lemma createPlayer_games: "games (fst (createPlayer d nm)) = games d"
  by (simp add: createPlayer_def Let_def)

lemma list_all_update_where:
  assumes "list_all P xs" and "\<And>x. P x \<Longrightarrow> P (f x)"
  shows "list_all P (update_where Q f xs)"
  using assms by (auto simp: update_where_def list_all_iff)


lemma createGame_games:
  "games (fst (createGame d playerId gameId grid)) = games d
   \<or> games (fst (createGame d playerId gameId grid)) =
       games d @ [\<lparr>g_id = gameId, player1_id = Some playerId, player2_id = None,
                    current_turn_player_id = Some playerId, status = waiting,
                    winner_id = None, g_grid = grid, move_count = 0\<rparr>]"
  by (simp add: createGame_def Let_def)

lemma joinGame_games:
  "games (fst (joinGame d gameId playerId)) = games d
   \<or> games (fst (joinGame d gameId playerId)) =
       update_where (\<lambda>g. g_id g = gameId)
         (\<lambda>g. g\<lparr>player2_id := Some playerId, status := in_progress\<rparr>) (games d)"
  by (auto simp: joinGame_def Let_def split: option.splits)

lemma post_move_games: "games (fst (post_move d gameId playerId r c)) = games d"
  using post_move_commits_nothing [of d gameId playerId r c] by auto

lemma dbMakeMove_cases:
  obtains (refused) e where
      "dbMakeMove d gameId playerId r c newGrid newStatus winnerId = (d, Inl e)"
  | (accepted) game turn d' where
      "getGameById d gameId = Some game"
      "status game = in_progress"
      "current_turn_player_id game = Some playerId"
      "cellIs (g_grid game) r c 0 = Inr True"
      "newStatus \<noteq> in_progress \<longrightarrow> turn = Some playerId"
      "dbMakeMove d gameId playerId r c newGrid newStatus winnerId =
         (d', Inr (set_game newGrid (move_count game + 1) turn newStatus winnerId game,
                   move_count game + 1))"
      "games d' =
         update_where (\<lambda>g. g_id g = gameId)
           (set_game newGrid (move_count game + 1) turn newStatus winnerId) (games d)"
proof (cases "getGameById d gameId")
  case None
  then have "dbMakeMove d gameId playerId r c newGrid newStatus winnerId = (d, Inl GameNotFound)"
    by (simp add: dbMakeMove_def)
  then show ?thesis by (rule refused)
next
  case game: (Some game)
  show ?thesis
  proof (cases "status game = in_progress \<and> current_turn_player_id game = Some playerId
                \<and> cellIs (g_grid game) r c 0 = Inr True")
    case False
    then have "\<exists>e. dbMakeMove d gameId playerId r c newGrid newStatus winnerId = (d, Inl e)"
      using game by (cases "cellIs (g_grid game) r c 0") (auto simp: dbMakeMove_def)
    then show ?thesis using refused by blast
  next
    case ok: True
    let ?turn = "if newStatus = in_progress
                 then (if player1_id game = Some playerId then player2_id game
                       else player1_id game)
                 else current_turn_player_id game"
    obtain d' res where run: "dbMakeMove d gameId playerId r c newGrid newStatus winnerId = (d', res)"
      by (cases "dbMakeMove d gameId playerId r c newGrid newStatus winnerId")
    have res: "res = Inr (set_game newGrid (move_count game + 1) ?turn newStatus winnerId game,
                          move_count game + 1)"
      and g': "games d' = update_where (\<lambda>g. g_id g = gameId)
                 (set_game newGrid (move_count game + 1) ?turn newStatus winnerId) (games d)"
      using run game ok by (auto simp: dbMakeMove_def Let_def)
    show ?thesis
      using game ok run res g' by (intro accepted [of game ?turn d']) simp_all
  qed
qed





lemma dbMakeMove_win:
  assumes game: "getGameById d gameId = Some game"
    and st: "status game = in_progress"
    and turn: "current_turn_player_id game = Some playerId"
    and pid: "playerId \<noteq> 0"
    and player: "getPlayerById d playerId = Some player"
    and free: "cellIs (g_grid game) r c 0 = Inr True"
  shows "\<exists>d'. dbMakeMove d gameId playerId r c newGrid win (Some playerId) =
                 (d', Inr (game\<lparr>g_grid := newGrid, move_count := move_count game + 1,
                                 status := win, winner_id := Some playerId\<rparr>,
                           move_count game + 1))
           \<and> getGameById d' gameId =
                Some (game\<lparr>g_grid := newGrid, move_count := move_count game + 1,
                           status := win, winner_id := Some playerId\<rparr>)
           \<and> getPlayerById d' playerId =
                Some (player\<lparr>total_wins := total_wins player + 1,
                             total_moves_in_wins :=
                               total_moves_in_wins player + (move_count game + 1)\<rparr>)
           \<and> (\<forall>q. q \<noteq> playerId \<longrightarrow> getPlayerById d' q = getPlayerById d q)"
proof -
  let ?upd = "set_game newGrid (move_count game + 1) (current_turn_player_id game) win
                (Some playerId)"
  let ?mv = "\<lparr>m_id = next_id (map m_id (moves d)), m_game_id = gameId,
              m_player_id = playerId, m_row = r, m_col = c,
              move_number = move_count game + 1\<rparr>"
  let ?d' = "\<lparr>players = update_where (\<lambda>p. p_id p = playerId)
                          (set_stats (move_count game + 1)) (players d),
              games = update_where (\<lambda>g. g_id g = gameId) ?upd (games d),
              moves = moves d @ [?mv]\<rparr>"
  have same: "?upd game = game\<lparr>g_grid := newGrid, move_count := move_count game + 1,
                           status := win, winner_id := Some playerId\<rparr>"
    using turn by (simp add: set_game_def)
  have run: "dbMakeMove d gameId playerId r c newGrid win (Some playerId) =
               (?d', Inr (?upd game, move_count game + 1))"
    using game st turn pid free by (simp add: dbMakeMove_def Let_def)
  have g': "getGameById ?d' gameId = Some (?upd game)"
    using game by (simp add: getGameById_def find_update_where set_game_def)
  have p': "getPlayerById ?d' playerId = Some (set_stats (move_count game + 1) player)"
    using player by (simp add: getPlayerById_def find_update_where set_stats_def)
  have others: "\<forall>q. q \<noteq> playerId \<longrightarrow> getPlayerById ?d' q = getPlayerById d q"
    by (simp add: getPlayerById_def find_player_update_other set_stats_def)
  show ?thesis
    using run g' p' others unfolding same
    by (intro exI [of _ ?d']) (simp add: set_stats_def)
qed


lemma reachable_db_play: "reachable d \<Longrightarrow> reachable (db_play d gameId ms)"
  by (induction d gameId ms rule: db_play.induct) (auto intro: reachable.intros)

lemma reachable_lobby: "reachable lobby"
  unfolding lobby_def waiting_room_def by (intro reachable.intros)

lemma reachable_scenario_A: "reachable scenario_A"
  unfolding scenario_A_def scenario_A_before_def
  by (intro reachable_db_play reachable_lobby)









lemma reachable_turn_inv: "reachable d \<Longrightarrow> list_all turn_inv (games d)"
proof (induction rule: reachable.induct)
  case r_init
  then show ?case by (simp add: empty_db_def)
next
  case (r_player d nm)
  then show ?case by (simp add: createPlayer_games)
next
  case (r_create d playerId gameId grid)
  then show ?case
    using createGame_games [of d playerId gameId grid] by (auto simp: turn_inv_def)
next
  case (r_join d gameId playerId)
  have "list_all turn_inv (update_where (\<lambda>g. g_id g = gameId)
         (\<lambda>g. g\<lparr>player2_id := Some playerId, status := in_progress\<rparr>) (games d))"
    using r_join.IH by (rule list_all_update_where) (simp add: turn_inv_def)
  then show ?case
    using r_join.IH joinGame_games [of d gameId playerId] by auto
next
  case (r_move d gameId playerId r c newGrid newStatus winnerId)
  show ?case
  proof (cases rule: dbMakeMove_cases [of d gameId playerId r c newGrid newStatus winnerId])
    case (refused e)
    then show ?thesis using r_move.IH by simp
  next
    case (accepted game turn d')
    have "\<And>x. turn_inv (set_game newGrid (move_count game + 1) turn newStatus winnerId x)"
      using accepted(5) by (simp add: turn_inv_def set_game_def)
    then have "list_all turn_inv (games d')"
      unfolding accepted(7) using r_move.IH by (intro list_all_update_where)
    then show ?thesis by (simp add: accepted(6))
  qed
next
  case (r_post_games d playerId gameId)
  then show ?case
    using post_games_games [of d playerId gameId] by (auto simp: turn_inv_def)
next
  case (r_post_join d gameId playerId)
  have "list_all turn_inv (update_where (\<lambda>g. g_id g = gameId)
         (\<lambda>g. g\<lparr>player2_id := Some playerId, status := in_progress\<rparr>) (games d))"
    using r_post_join.IH by (rule list_all_update_where) (simp add: turn_inv_def)
  then show ?case
    using r_post_join.IH post_join_games [of d gameId playerId] by auto
next
  case (r_post_move d gameId playerId r c)
  then show ?case by (simp add: post_move_games)
qed

text \<open>
  C2, as the code has it. The current-turn id is not cleared when a game ends: every
  stored game whose status is won or drawn has a current-turn id, and a move that
  \<open>makeMove\<close> of the database module stores with a status other than in_progress leaves
  the current-turn id at the player who made it, which \<open>getGameById\<close> then returns.
\<close>

theorem current_turn_kept_when_terminal:
  "(reachable d \<and> getGameById d gameId = Some game \<and> (status game = win \<or> status game = draw)
      \<longrightarrow> current_turn_player_id game \<noteq> None)
   \<and> (dbMakeMove d gameId playerId r c newGrid newStatus winnerId = (d', Inr (game', k))
        \<and> newStatus \<noteq> in_progress \<longrightarrow>
        getGameById d' gameId = Some game' \<and> status game' = newStatus
        \<and> current_turn_player_id game' = Some playerId)"
proof (rule conjI)
  show "reachable d \<and> getGameById d gameId = Some game \<and> (status game = win \<or> status game = draw)
      \<longrightarrow> current_turn_player_id game \<noteq> None"
  proof
    assume a: "reachable d \<and> getGameById d gameId = Some game
                 \<and> (status game = win \<or> status game = draw)"
    then have "turn_inv game"
      using reachable_turn_inv [of d] getGameById_mem [of d gameId game]
      by (simp add: list_all_iff)
    then show "current_turn_player_id game \<noteq> None"
      using a by (auto simp: turn_inv_def)
  qed
next
  show "dbMakeMove d gameId playerId r c newGrid newStatus winnerId = (d', Inr (game', k))
        \<and> newStatus \<noteq> in_progress \<longrightarrow>
        getGameById d' gameId = Some game' \<and> status game' = newStatus
        \<and> current_turn_player_id game' = Some playerId"
  proof
    assume a: "dbMakeMove d gameId playerId r c newGrid newStatus winnerId = (d', Inr (game', k))
                 \<and> newStatus \<noteq> in_progress"
    show "getGameById d' gameId = Some game' \<and> status game' = newStatus
            \<and> current_turn_player_id game' = Some playerId"
    proof (cases rule: dbMakeMove_cases [of d gameId playerId r c newGrid newStatus winnerId])
      case (refused e)
      then show ?thesis using a by simp
    next
      case (accepted game0 turn d'')
      have eq: "d'' = d'"
        "game' = set_game newGrid (move_count game0 + 1) turn newStatus winnerId game0"
        using a accepted(6) by auto
      have "getGameById d' gameId = Some game'"
        using accepted(1) accepted(7) eq
        by (simp add: getGameById_def find_update_where set_game_def)
      then show ?thesis
        using a eq accepted(5) by (simp add: set_game_def)
    qed
  qed
qed

theorem current_turn_kept_when_terminal_witness:
  "reachable scenario_A
   \<and> getGameById scenario_A ''g'' =
       Some \<lparr>g_id = ''g'', player1_id = Some 1, player2_id = Some 2,
            current_turn_player_id = Some 1, status = win, winner_id = Some 1,
            g_grid = nums [[1, 1, 1], [2, 2, 0], [0, 0, 0]], move_count = 5\<rparr>
   \<and> dbMakeMove scenario_A_before ''g'' 1 0 2 (nums [[1, 1, 1], [2, 2, 0], [0, 0, 0]]) win (Some 1) =
       (scenario_A,
        Inr (\<lparr>g_id = ''g'', player1_id = Some 1, player2_id = Some 2,
              current_turn_player_id = Some 1, status = win, winner_id = Some 1,
              g_grid = nums [[1, 1, 1], [2, 2, 0], [0, 0, 0]], move_count = 5\<rparr>, 5))
   \<and> map_option current_turn_player_id (getGameById scenario_A ''g'') = Some (Some 1)"
proof -
  let ?row = "\<lparr>g_id = ''g'', player1_id = Some 1, player2_id = Some 2,
            current_turn_player_id = Some 1, status = win, winner_id = Some 1,
            g_grid = nums [[1, 1, 1], [2, 2, 0], [0, 0, 0]], move_count = 5\<rparr>"
  have g: "getGameById scenario_A ''g'' = Some ?row"
    unfolding scenario_A_value by code_simp
  have run: "dbMakeMove scenario_A_before ''g'' 1 0 2 (nums [[1, 1, 1], [2, 2, 0], [0, 0, 0]])
               win (Some 1) = (scenario_A, Inr (?row, 5))"
    unfolding scenario_A_value scenario_A_before_value by code_simp
  have ended: "status ?row = win \<or> status ?row = draw"
    and over: "win \<noteq> in_progress"
    by simp_all
  have present: "current_turn_player_id ?row \<noteq> None"
    using current_turn_kept_when_terminal
            [where d = scenario_A and gameId = "''g''" and game = ?row]
      reachable_scenario_A g ended by blast
  have "getGameById scenario_A ''g'' = Some ?row \<and> status ?row = win
          \<and> current_turn_player_id ?row = Some 1"
    using current_turn_kept_when_terminal
            [where d = scenario_A_before and gameId = "''g''" and playerId = 1 and r = 0
               and c = 2 and newGrid = "nums [[1, 1, 1], [2, 2, 0], [0, 0, 0]]"
               and newStatus = win and winnerId = "Some 1" and d' = scenario_A
               and game' = ?row and k = 5]
      run over by blast
  then have cur: "map_option current_turn_player_id (getGameById scenario_A ''g'') = Some (Some 1)"
    using present by simp
  show ?thesis
    by (intro conjI reachable_scenario_A g run cur)
qed

text \<open>
  C2, as stated, fails: after the five moves of Scenario A the game is won and
  \<open>getGameById\<close> returns it with the current-turn id 1.
\<close>

theorem current_turn_present_after_win:
  "reachable scenario_A
   \<and> getGameById scenario_A ''g'' =
       Some \<lparr>g_id = ''g'', player1_id = Some 1, player2_id = Some 2,
            current_turn_player_id = Some 1, status = win, winner_id = Some 1,
            g_grid = nums [[1, 1, 1], [2, 2, 0], [0, 0, 0]], move_count = 5\<rparr>"
proof -
  have "getGameById scenario_A ''g'' =
       Some \<lparr>g_id = ''g'', player1_id = Some 1, player2_id = Some 2,
            current_turn_player_id = Some 1, status = win, winner_id = Some 1,
            g_grid = nums [[1, 1, 1], [2, 2, 0], [0, 0, 0]], move_count = 5\<rparr>"
    unfolding scenario_A_value by code_simp
  then show ?thesis
    using reachable_scenario_A by simp
qed

section \<open>Ranking\<close>

lemma selected_rows_exist:
  "selected_rows b d (sort_key (order_key b) (filter (\<lambda>p. total_wins p > 0) (players d)))"
  by (simp add: selected_rows_def)

lemma selected_rows_winners:
  assumes "selected_rows b d rows" and "p \<in> set rows"
  shows "p \<in> set (players d) \<and> 0 < total_wins p"
proof -
  have "set rows = set (filter (\<lambda>p. total_wins p > 0) (players d))"
    using assms(1) unfolding selected_rows_def by (metis mset_eq_setD)
  then show ?thesis using assms(2) by auto
qed

lemma in_enumerate_set: "(i, x) \<in> set (enumerate n xs) \<Longrightarrow> x \<in> set xs"
  by (induction xs arbitrary: n) auto

lemma leaderboard_of_entry:
  assumes "e \<in> set (leaderboard_of b rows)"
  shows "\<exists>p\<in>set rows. e_playerId e = p_id p \<and> e_name e = p_name p"
proof -
  let ?f = "\<lambda>(i, p). \<lparr>e_rank = int i + 1, e_playerId = p_id p, e_name = p_name p,
                     e_value = entry_value b p\<rparr>"
  from assms have "e \<in> ?f ` set (enumerate 0 (take 3 rows))"
    unfolding leaderboard_of_def set_map .
  then obtain ip where ip: "ip \<in> set (enumerate 0 (take 3 rows))" and e: "e = ?f ip"
    by (rule imageE)
  obtain i p where pair: "ip = (i, p)"
    by (cases ip)
  have "p \<in> set (take 3 rows)"
    using ip unfolding pair by (rule in_enumerate_set)
  then have "p \<in> set rows"
    by (rule in_set_takeD)
  moreover have "e_playerId e = p_id p \<and> e_name e = p_name p"
    unfolding e pair by simp
  ultimately show ?thesis by blast
qed

text \<open>
  C7. For every table of players and either ordering, the query has an answer, and
  every answer has at most 3 entries, each the id and name of a player with
  \<open>total_wins > 0\<close>; when no player has \<open>total_wins > 0\<close> the answer is the empty
  list.
\<close>

theorem leaderboard_top3_winners:
  "(\<exists>res. getLeaderboard d b res)
   \<and> (\<forall>res. getLeaderboard d b res \<longrightarrow>
        length res \<le> 3
        \<and> (\<forall>e\<in>set res. \<exists>p\<in>set (players d).
              p_id p = e_playerId e \<and> p_name p = e_name e \<and> 0 < total_wins p)
        \<and> ((\<forall>p\<in>set (players d). \<not> 0 < total_wins p) \<longrightarrow> res = []))"
proof (intro conjI allI impI)
  show "\<exists>res. getLeaderboard d b res"
    unfolding getLeaderboard_def using selected_rows_exist by blast
next
  fix res assume "getLeaderboard d b res"
  then obtain rows where rows: "selected_rows b d rows" and res: "res = leaderboard_of b rows"
    by (auto simp: getLeaderboard_def)
  show "length res \<le> 3"
    by (simp add: res leaderboard_of_def)
  show "\<forall>e\<in>set res. \<exists>p\<in>set (players d).
          p_id p = e_playerId e \<and> p_name p = e_name e \<and> 0 < total_wins p"
  proof
    fix e assume "e \<in> set res"
    then obtain p where "p \<in> set rows" "e_playerId e = p_id p" "e_name e = p_name p"
      using leaderboard_of_entry res by blast
    then show "\<exists>p\<in>set (players d). p_id p = e_playerId e \<and> p_name p = e_name e \<and> 0 < total_wins p"
      using selected_rows_winners [OF rows] by auto
  qed
  assume none: "\<forall>p\<in>set (players d). \<not> 0 < total_wins p"
  have "rows = []"
  proof (cases rows)
    case (Cons p ps)
    then have "p \<in> set (players d) \<and> 0 < total_wins p"
      using selected_rows_winners [OF rows, of p] by simp
    then show ?thesis using none by blast
  qed simp
  then show "res = []"
    by (simp add: res leaderboard_of_def)
qed

theorem leaderboard_top3_winners_witness:
  "getLeaderboard scenario_A by_wins
     [\<lparr>e_rank = 1, e_playerId = 1, e_name = ''A'', e_value = 1\<rparr>]
   \<and> getLeaderboard scenario_A by_efficiency
     [\<lparr>e_rank = 1, e_playerId = 1, e_name = ''A'', e_value = 5\<rparr>]
   \<and> getLeaderboard lobby by_wins []
   \<and> length [\<lparr>e_rank = 1, e_playerId = 1, e_name = ''A'', e_value = (1::rat)\<rparr>] \<le> 3
   \<and> 0 < total_wins \<lparr>p_id = 1, p_name = ''A'', total_wins = 1, total_moves_in_wins = 5\<rparr>"
proof -
  let ?A = "\<lparr>p_id = 1, p_name = ''A'', total_wins = 1, total_moves_in_wins = 5\<rparr>"
  have w: "getLeaderboard scenario_A by_wins
             [\<lparr>e_rank = 1, e_playerId = 1, e_name = ''A'', e_value = 1\<rparr>]"
    unfolding getLeaderboard_def
    by (rule exI [of _ "[?A]"])
       (simp add: selected_rows_def scenario_A_value leaderboard_of_def entry_value_def)
  have r: "round2 (moves_per_win ?A) = 5"
    by code_simp
  have e: "getLeaderboard scenario_A by_efficiency
             [\<lparr>e_rank = 1, e_playerId = 1, e_name = ''A'', e_value = 5\<rparr>]"
    unfolding getLeaderboard_def
    by (rule exI [of _ "[?A]"])
       (simp add: selected_rows_def scenario_A_value leaderboard_of_def entry_value_def r)
  have l: "getLeaderboard lobby by_wins []"
    unfolding getLeaderboard_def
    by (rule exI [of _ "[]"]) (simp add: selected_rows_def lobby_players leaderboard_of_def)
  have len: "length [\<lparr>e_rank = 1, e_playerId = 1, e_name = ''A'', e_value = (1::rat)\<rparr>] \<le> 3"
    using leaderboard_top3_winners [of scenario_A by_wins] w by blast
  have "\<exists>p\<in>set (players scenario_A). p_id p = 1 \<and> p_name p = ''A'' \<and> 0 < total_wins p"
    using leaderboard_top3_winners [of scenario_A by_wins] w by fastforce
  then have pos: "0 < total_wins ?A"
    unfolding scenario_A_value by auto
  show ?thesis
    by (intro conjI w e l len pos)
qed


end
